theory Spec2Isabelle
  imports Complex_Main "HOL-Library.Word"
begin

section \<open>Data model\<close>

text \<open>
  The package wraps one child process in a record (\<open>AbstractProcess\<close>, with a blocking
  subclass \<open>Process\<close> and a coroutine subclass \<open>process.asyncio.Process\<close>). The record
  keeps the constructor's arguments, two byte accumulators and, once spawned, the handle
  returned by the operating system layer.
\<close>

type_synonym bytes = "8 word list"

text \<open>
  \<open>File = Union[int, IO[bytes]]\<close>. The three special values of \<open>core/constants.py\<close> are
  the integers of the \<open>subprocess\<close> module.
\<close>

datatype File = Fd int | FileObject nat

definition PIPE :: File where
  "PIPE = Fd (- 1)"

definition STDOUT :: File where
  "STDOUT = Fd (- 2)"

definition DEVNULL :: File where
  "DEVNULL = Fd (- 3)"

text \<open>The \<open>stdin\<close> argument is \<open>Optional[Union[bytes, File]]\<close>.\<close>

datatype source = Buffer bytes | Handle File

text \<open>\<open>StrOrPath\<close>, and the \<open>arguments\<close> parameter \<open>Union[StrOrPath, Sequence[StrOrPath]]\<close>.\<close>

datatype str_or_path = Str string | Path string

datatype arguments = Single str_or_path | Sequence "str_or_path list"

fun fspath :: "str_or_path \<Rightarrow> string" where
  "fspath (Str s) = s"
| "fspath (Path s) = s"

text \<open>
  The exceptions of \<open>core/errors.py\<close> (\<open>ProcessError\<close> carries its message), the two
  pipe errors that the clean-up paths suppress, the time-out exceptions of the two
  waiting primitives and \<open>ValueError\<close>.
\<close>

datatype error =
    ProcessError string
  | ProcessNotRunError
  | ProcessAlreadyRunError
  | ProcessInvalidStreamError
  | ProcessTimeoutError
  | BrokenPipeError
  | ConnectionResetError
  | TimeoutExpired
  | TimeoutError
  | ValueError

text \<open>
  A call returns a value, raises, or never comes back (a wait without time-out on a
  child that does not exit, a write into a pipe nobody reads).
\<close>

datatype 'a outcome = Return 'a | Raise error | Block

subsection \<open>Streams\<close>

datatype pipe_error = BrokenPipe | ConnectionReset

fun os_error :: "pipe_error \<Rightarrow> error" where
  "os_error BrokenPipe = BrokenPipeError"
| "os_error ConnectionReset = ConnectionResetError"

text \<open>
  The streams belong to the standard library; the package calls \<open>closed\<close>, \<open>write\<close>,
  \<open>read()\<close> and \<open>close\<close> on the blocking ones and \<open>is_closing\<close>, \<open>write\<close>, \<open>drain\<close>,
  \<open>close\<close>, \<open>wait_closed\<close> and \<open>read()\<close> on the scheduler's. What the kernel does with
  data flushed into the child's standard input is a condition of the pipe: it takes the
  data, it fails with one of the two errors the clean-up code expects, or it stalls
  because the child does not read.
\<close>

datatype pipe_cond = Flowing | Failing pipe_error | Stalled

record writer =
  w_closed :: bool
  w_written :: bytes
  w_cond :: pipe_cond

text \<open>
  \<open>r_pending\<close>: the bytes the child writes before end-of-file that nobody has consumed
  yet. \<open>read()\<close> without a size reads up to end-of-file, so it returns all of them; the
  time it may have to wait for the child to finish writing is not modelled.
\<close>

record reader =
  r_closed :: bool
  r_pending :: bytes

definition new_writer :: "pipe_cond \<Rightarrow> writer" where
  "new_writer c = \<lparr>w_closed = False, w_written = [], w_cond = c\<rparr>"

definition new_reader :: "bytes \<Rightarrow> reader" where
  "new_reader bs = \<lparr>r_closed = False, r_pending = bs\<rparr>"

text \<open>
  Blocking streams (\<open>io.BufferedWriter\<close>, \<open>io.BufferedReader\<close>, \<open>io.FileIO\<close>). Writing to
  or reading from a closed stream raises \<open>ValueError\<close>; closing a closed stream does
  nothing; closing flushes, so it can fail, and the stream is closed all the same.
\<close>

definition writer_write :: "bytes \<Rightarrow> writer \<Rightarrow> unit outcome \<times> writer" where
  "writer_write b w =
     (if w_closed w then (Raise ValueError, w)
      else case w_cond w of
             Flowing \<Rightarrow> (Return (), w\<lparr>w_written := w_written w @ b\<rparr>)
           | Failing e \<Rightarrow> (Raise (os_error e), w)
           | Stalled \<Rightarrow> (Block, w))"

definition writer_close :: "writer \<Rightarrow> unit outcome \<times> writer" where
  "writer_close w =
     (if w_closed w then (Return (), w)
      else case w_cond w of
             Failing e \<Rightarrow> (Raise (os_error e), w\<lparr>w_closed := True\<rparr>)
           | _ \<Rightarrow> (Return (), w\<lparr>w_closed := True\<rparr>))"

definition reader_read :: "reader \<Rightarrow> bytes outcome \<times> reader" where
  "reader_read r =
     (if r_closed r then (Raise ValueError, r)
      else (Return (r_pending r), r\<lparr>r_pending := []\<rparr>))"

definition reader_close :: "reader \<Rightarrow> unit outcome \<times> reader" where
  "reader_close r = (Return (), r\<lparr>r_closed := True\<rparr>)"

text \<open>
  Scheduler streams (\<open>asyncio.StreamWriter\<close>, \<open>asyncio.StreamReader\<close>): \<open>write\<close> and
  \<open>close\<close> only queue work, \<open>drain\<close> and \<open>wait_closed\<close> report the pipe's condition.
\<close>

definition stream_write :: "bytes \<Rightarrow> writer \<Rightarrow> unit outcome \<times> writer" where
  "stream_write b w =
     (Return (), if w_cond w = Flowing then w\<lparr>w_written := w_written w @ b\<rparr> else w)"

definition stream_drain :: "writer \<Rightarrow> unit outcome \<times> writer" where
  "stream_drain w =
     (case w_cond w of
        Flowing \<Rightarrow> (Return (), w)
      | Failing e \<Rightarrow> (Raise (os_error e), w)
      | Stalled \<Rightarrow> (Block, w))"

definition stream_close :: "writer \<Rightarrow> unit outcome \<times> writer" where
  "stream_close w = (Return (), w\<lparr>w_closed := True\<rparr>)"

definition stream_wait_closed :: "writer \<Rightarrow> unit outcome \<times> writer" where
  "stream_wait_closed w =
     (case w_cond w of
        Failing e \<Rightarrow> (Raise (os_error e), w)
      | _ \<Rightarrow> (Return (), w))"

definition stream_read :: "reader \<Rightarrow> bytes outcome \<times> reader" where
  "stream_read r = (Return (r_pending r), r\<lparr>r_pending := []\<rparr>)"

subsection \<open>The process-creation primitive\<close>

text \<open>
  \<open>subprocess.Popen\<close> and \<open>asyncio.subprocess.create_subprocess_exec\<close> are outside the
  package. They are modelled by what the package observes of them: the request they
  receive, whether creation fails (with the \<open>repr\<close> of the exception) and, for a created
  child, how long it runs, with which status it exits, which signals it ignores, what
  its standard input pipe does and what it writes. All of that is the environment's
  choice \<open>os_create\<close>. The record \<open>os\<close> also holds the two platform tests of the package:
  \<open>is_windows()\<close> of \<open>utils.py\<close> and \<open>sys.version_info >= (3, 8)\<close>.

  A stream attribute of the handle is a stream exactly when \<open>PIPE\<close> was requested for it
  and \<open>None\<close> otherwise, as the documentation that the stream properties quote says.
\<close>

record request =
  rq_args :: "string list"
  rq_bufsize :: int
  rq_stdin :: "File option"
  rq_stdout :: "File option"
  rq_stderr :: "File option"
  rq_creationflags :: int

record child =
  c_pid :: nat
  c_lifetime :: "real option"
  c_status :: int
  c_ignored :: "int list"
  c_stdin_cond :: pipe_cond
  c_stdout :: bytes
  c_stderr :: bytes

record os =
  os_windows :: bool
  os_py38 :: bool
  os_create :: "request \<Rightarrow> string + child"

record popen =
  p_request :: request
  p_pid :: nat
  p_stdin :: "writer option"
  p_stdout :: "reader option"
  p_stderr :: "reader option"
  p_returncode :: "int option"
  p_remaining :: "real option"
  p_status :: int
  p_ignored :: "int list"

definition CREATE_NEW_PROCESS_GROUP :: int where
  "CREATE_NEW_PROCESS_GROUP = 512"

definition SIGKILL :: int where
  "SIGKILL = 9"

definition SIGTERM :: int where
  "SIGTERM = 15"

definition create_process :: "os \<Rightarrow> request \<Rightarrow> string + popen" where
  "create_process sys rq =
     (case os_create sys rq of
        Inl cause \<Rightarrow> Inl cause
      | Inr c \<Rightarrow> Inr
          \<lparr>p_request = rq,
           p_pid = c_pid c,
           p_stdin = (if rq_stdin rq = Some PIPE then Some (new_writer (c_stdin_cond c)) else None),
           p_stdout = (if rq_stdout rq = Some PIPE then Some (new_reader (c_stdout c)) else None),
           p_stderr = (if rq_stderr rq = Some PIPE then Some (new_reader (c_stderr c)) else None),
           p_returncode = None,
           p_remaining = c_lifetime c,
           p_status = c_status c,
           p_ignored = c_ignored c\<rparr>)"

text \<open>
  Waiting (\<open>Popen.wait(timeout)\<close> and \<open>asyncio.wait_for(process.wait(), timeout)\<close>).
  \<open>p_remaining\<close> is the time the child still runs (\<open>None\<close>: it never exits by itself).
  A wait on a reaped child returns its return code; a wait that sees the child exit
  reaps it; a wait without time-out on a child that never exits does not return; a wait
  that times out raises the primitive's time-out exception, lets that much time pass
  and changes nothing else.
\<close>

definition exits_within :: "real option \<Rightarrow> popen \<Rightarrow> bool" where
  "exits_within timeout h =
     (case p_remaining h of
        None \<Rightarrow> False
      | Some r \<Rightarrow> (case timeout of None \<Rightarrow> True | Some t \<Rightarrow> r \<le> max 0 t))"

definition reap :: "popen \<Rightarrow> popen" where
  "reap h = h\<lparr>p_returncode := Some (p_status h), p_remaining := Some 0\<rparr>"

definition elapse :: "real \<Rightarrow> popen \<Rightarrow> popen" where
  "elapse d h = h\<lparr>p_remaining := map_option (\<lambda>r. r - d) (p_remaining h)\<rparr>"

definition wait_for_exit :: "error \<Rightarrow> real option \<Rightarrow> popen \<Rightarrow> int outcome \<times> popen" where
  "wait_for_exit expired timeout h =
     (case p_returncode h of
        Some rc \<Rightarrow> (Return rc, h)
      | None \<Rightarrow>
          if exits_within timeout h then (Return (p_status h), reap h)
          else (case timeout of
                  None \<Rightarrow> (Block, h)
                | Some t \<Rightarrow> (Raise expired, elapse (max 0 t) h)))"

definition popen_wait :: "real option \<Rightarrow> popen \<Rightarrow> int outcome \<times> popen" where
  "popen_wait = wait_for_exit TimeoutExpired"

definition asyncio_wait :: "real option \<Rightarrow> popen \<Rightarrow> int outcome \<times> popen" where
  "asyncio_wait = wait_for_exit TimeoutError"

text \<open>
  Signals. A signal reaches a child that is alive; unless the child ignores it, the
  child exits at once with the negated signal number as status. \<open>Popen.send_signal\<close>
  polls first and does nothing when the child has already been reaped. \<open>terminate\<close> and
  \<open>kill\<close> send \<open>SIGTERM\<close> and \<open>SIGKILL\<close>. None of them fails in this model.
\<close>

definition popen_poll :: "popen \<Rightarrow> popen" where
  "popen_poll h =
     (if p_returncode h = None \<and> exits_within (Some 0) h then reap h else h)"

definition alive :: "popen \<Rightarrow> bool" where
  "alive h \<longleftrightarrow> p_returncode h = None \<and> \<not> exits_within (Some 0) h"

definition deliver :: "int \<Rightarrow> popen \<Rightarrow> popen" where
  "deliver sig h =
     (if alive h \<and> sig \<notin> set (p_ignored h)
      then h\<lparr>p_remaining := Some 0, p_status := - sig\<rparr> else h)"

definition popen_send_signal :: "int \<Rightarrow> popen \<Rightarrow> unit outcome \<times> popen" where
  "popen_send_signal sig h =
     (let h' = popen_poll h
      in if p_returncode h' \<noteq> None then (Return (), h') else (Return (), deliver sig h'))"

definition asyncio_send_signal :: "int \<Rightarrow> popen \<Rightarrow> unit outcome \<times> popen" where
  "asyncio_send_signal sig h = (Return (), deliver sig h)"

subsection \<open>The record\<close>

text \<open>
  The fields of \<open>AbstractProcess.__init__\<close>. \<open>self_arguments\<close> is a reference to a list
  object: the heap maps references (indices) to the lists' contents, so that sharing a
  list with the caller can be expressed. A reference is valid when it is below the
  heap's length; the constructor returns a valid one and no operation invalidates it.
\<close>

type_synonym heap = "string list list"

record process =
  self_arguments :: nat
  self_stdin :: "source option"
  self_stdout :: "File option"
  self_stderr :: "File option"
  self_buffer_size :: int
  self_output :: bytes
  self_error :: bytes
  self_process :: "popen option"

subsection \<open>Sequencing calls that may raise\<close>

type_synonym ('a, 's) action = "'s \<Rightarrow> 'a outcome \<times> 's"

definition returns :: "'a \<Rightarrow> ('a, 's) action" where
  "returns a s = (Return a, s)"

definition raises :: "error \<Rightarrow> ('a, 's) action" where
  "raises e s = (Raise e, s)"

definition andthen :: "('a, 's) action \<Rightarrow> ('a \<Rightarrow> ('b, 's) action) \<Rightarrow> ('b, 's) action" where
  "andthen m f s =
     (case m s of
        (Return a, s') \<Rightarrow> f a s'
      | (Raise e, s') \<Rightarrow> (Raise e, s')
      | (Block, s') \<Rightarrow> (Block, s'))"

definition before :: "('a, 's) action \<Rightarrow> ('b, 's) action \<Rightarrow> ('b, 's) action" where
  "before m n = andthen m (\<lambda>_. n)"

text \<open>
  \<open>with suppress(E1, ..., En): body\<close>. None of the classes that the package suppresses
  has a subclass among the errors, so catching is membership in the list.
\<close>

definition suppress :: "error list \<Rightarrow> (unit, 's) action \<Rightarrow> (unit, 's) action" where
  "suppress es body s =
     (case body s of
        (Raise e, s') \<Rightarrow> if e \<in> set es then (Return (), s') else (Raise e, s')
      | r \<Rightarrow> r)"

text \<open>\<open>try: body except E: raise E'\<close>.\<close>

definition translate :: "error \<Rightarrow> error \<Rightarrow> ('a, 's) action \<Rightarrow> ('a, 's) action" where
  "translate e e' body s =
     (case body s of
        (Raise x, s') \<Rightarrow> if x = e then (Raise e', s') else (Raise x, s')
      | r \<Rightarrow> r)"

section \<open>Operations of \<open>AbstractProcess\<close>\<close>

text \<open>
  \<open>__init__\<close> (\<open>core/process.py\<close>): a string is split by \<open>shlex.split\<close> (outside the package, taken as a
  parameter; \<open>None\<close> is its \<open>ValueError\<close>), a single path becomes a one-element list, and
  every element goes through \<open>fspath\<close> into a new list object.
\<close>

definition as_sequence ::
  "(string \<Rightarrow> string list option) \<Rightarrow> arguments \<Rightarrow> str_or_path list option" where
  "as_sequence shlex_split arguments =
     (case arguments of
        Single (Str s) \<Rightarrow> map_option (map Str) (shlex_split s)
      | Single (Path q) \<Rightarrow> Some [Path q]
      | Sequence xs \<Rightarrow> Some xs)"

definition AbstractProcess_init ::
  "(string \<Rightarrow> string list option) \<Rightarrow> arguments \<Rightarrow> source option \<Rightarrow> File option \<Rightarrow>
   File option \<Rightarrow> int option \<Rightarrow> (process, heap) action" where
  "AbstractProcess_init shlex_split arguments stdin stdout stderr buffer_size hp =
     (case as_sequence shlex_split arguments of
        None \<Rightarrow> (Raise ValueError, hp)
      | Some args \<Rightarrow>
          (case buffer_size of
             None \<Rightarrow> (Raise ValueError, hp)
           | Some n \<Rightarrow>
               (Return
                  \<lparr>self_arguments = length hp,
                   self_stdin = stdin,
                   self_stdout = stdout,
                   self_stderr = stderr,
                   self_buffer_size = n,
                   self_output = [],
                   self_error = [],
                   self_process = None\<rparr>,
                hp @ [map fspath args])))"

text \<open>
  The constructors of the two subclasses replace a missing \<open>buffer_size\<close> by their
  default. The asynchronous default is in \<open>asyncio/constants.py\<close>; the blocking one
  comes from a module that is not among the sources and is a parameter here.
\<close>

definition DEFAULT_BUFFER_SIZE :: int where
  "DEFAULT_BUFFER_SIZE = 2 ^ 16"

definition Process_init ::
  "int \<Rightarrow> (string \<Rightarrow> string list option) \<Rightarrow> arguments \<Rightarrow> source option \<Rightarrow> File option \<Rightarrow>
   File option \<Rightarrow> int option \<Rightarrow> (process, heap) action" where
  "Process_init default_buffer_size shlex_split arguments stdin stdout stderr buffer_size =
     AbstractProcess_init shlex_split arguments stdin stdout stderr
       (Some (case buffer_size of None \<Rightarrow> default_buffer_size | Some n \<Rightarrow> n))"

definition AsyncProcess_init ::
  "(string \<Rightarrow> string list option) \<Rightarrow> arguments \<Rightarrow> source option \<Rightarrow> File option \<Rightarrow>
   File option \<Rightarrow> int option \<Rightarrow> (process, heap) action" where
  "AsyncProcess_init shlex_split arguments stdin stdout stderr buffer_size =
     AbstractProcess_init shlex_split arguments stdin stdout stderr
       (Some (case buffer_size of None \<Rightarrow> DEFAULT_BUFFER_SIZE | Some n \<Rightarrow> n))"

text \<open>The property \<open>arguments\<close>: \<open>list(self._arguments)\<close> allocates a copy.\<close>

definition AbstractProcess_arguments :: "process \<Rightarrow> heap \<Rightarrow> nat \<times> heap" where
  "AbstractProcess_arguments p hp = (length hp, hp @ [hp ! self_arguments p])"

text \<open>
  The property \<open>process\<close> and the three stream properties read the same in both
  subclasses (the blocking ones end in an \<open>isinstance\<close> cast that returns the stream).
\<close>

definition Process_process :: "(popen, process) action" where
  "Process_process p =
     (case self_process p of
        None \<Rightarrow> (Raise ProcessNotRunError, p)
      | Some h \<Rightarrow> (Return h, p))"

definition Process_stdin :: "(writer, process) action" where
  "Process_stdin =
     andthen Process_process (\<lambda>h.
       case p_stdin h of
         None \<Rightarrow> raises ProcessInvalidStreamError
       | Some w \<Rightarrow> returns w)"

definition Process_stdout :: "(reader, process) action" where
  "Process_stdout =
     andthen Process_process (\<lambda>h.
       case p_stdout h of
         None \<Rightarrow> raises ProcessInvalidStreamError
       | Some r \<Rightarrow> returns r)"

definition Process_stderr :: "(reader, process) action" where
  "Process_stderr =
     andthen Process_process (\<lambda>h.
       case p_stderr h of
         None \<Rightarrow> raises ProcessInvalidStreamError
       | Some r \<Rightarrow> returns r)"

text \<open>
  A method call on the object a property returns: the property is evaluated, the method
  runs, and the object (shared with the handle) keeps the method's effect.
\<close>

definition on_process :: "(popen \<Rightarrow> 'a outcome \<times> popen) \<Rightarrow> ('a, process) action" where
  "on_process f =
     andthen Process_process (\<lambda>h p.
       case f h of (out, h') \<Rightarrow> (out, p\<lparr>self_process := Some h'\<rparr>))"

definition on_stdin :: "(writer \<Rightarrow> 'a outcome \<times> writer) \<Rightarrow> ('a, process) action" where
  "on_stdin f =
     andthen Process_stdin (\<lambda>w p.
       case f w of (out, w') \<Rightarrow>
         (out, p\<lparr>self_process := map_option (\<lambda>h. h\<lparr>p_stdin := Some w'\<rparr>) (self_process p)\<rparr>))"

definition on_stdout :: "(reader \<Rightarrow> 'a outcome \<times> reader) \<Rightarrow> ('a, process) action" where
  "on_stdout f =
     andthen Process_stdout (\<lambda>r p.
       case f r of (out, r') \<Rightarrow>
         (out, p\<lparr>self_process := map_option (\<lambda>h. h\<lparr>p_stdout := Some r'\<rparr>) (self_process p)\<rparr>))"

definition on_stderr :: "(reader \<Rightarrow> 'a outcome \<times> reader) \<Rightarrow> ('a, process) action" where
  "on_stderr f =
     andthen Process_stderr (\<lambda>r p.
       case f r of (out, r') \<Rightarrow>
         (out, p\<lparr>self_process := map_option (\<lambda>h. h\<lparr>p_stderr := Some r'\<rparr>) (self_process p)\<rparr>))"

definition add_output :: "bytes \<Rightarrow> (unit, process) action" where
  "add_output bs p = (Return (), p\<lparr>self_output := self_output p @ bs\<rparr>)"

definition add_error :: "bytes \<Rightarrow> (unit, process) action" where
  "add_error bs p = (Return (), p\<lparr>self_error := self_error p @ bs\<rparr>)"

text \<open>
  \<open>signal\<close>, \<open>terminate\<close> and \<open>kill\<close> forward to the handle, which is a \<open>Popen\<close> in the
  blocking class and an \<open>asyncio.subprocess.Process\<close> in the other.
\<close>

datatype mode = Blocking | Coroutine

definition AbstractProcess_signal :: "mode \<Rightarrow> int \<Rightarrow> (unit, process) action" where
  "AbstractProcess_signal m sig =
     on_process (case m of Blocking \<Rightarrow> popen_send_signal sig | Coroutine \<Rightarrow> asyncio_send_signal sig)"

definition AbstractProcess_terminate :: "mode \<Rightarrow> (unit, process) action" where
  "AbstractProcess_terminate m =
     on_process (case m of Blocking \<Rightarrow> popen_send_signal SIGTERM | Coroutine \<Rightarrow> asyncio_send_signal SIGTERM)"

definition AbstractProcess_kill :: "mode \<Rightarrow> (unit, process) action" where
  "AbstractProcess_kill m =
     on_process (case m of Blocking \<Rightarrow> popen_send_signal SIGKILL | Coroutine \<Rightarrow> asyncio_send_signal SIGKILL)"

text \<open>The request that \<open>run\<close> hands to the creation primitive.\<close>

definition is_bytes :: "source option \<Rightarrow> bool" where
  "is_bytes stdin = (case stdin of Some (Buffer b) \<Rightarrow> True | _ \<Rightarrow> False)"

definition cast_File :: "source option \<Rightarrow> File option" where
  "cast_File stdin = (case stdin of Some (Handle f) \<Rightarrow> Some f | _ \<Rightarrow> None)"

definition cast_bytes :: "source option \<Rightarrow> bytes" where
  "cast_bytes stdin = (case stdin of Some (Buffer b) \<Rightarrow> b | _ \<Rightarrow> [])"

definition spawn_request :: "os \<Rightarrow> process \<Rightarrow> string list \<Rightarrow> request" where
  "spawn_request sys p args =
     (let creationflags = (if os_windows sys then CREATE_NEW_PROCESS_GROUP else 0);
          stdin = self_stdin p;
          should_feed_stdin = is_bytes stdin
      in \<lparr>rq_args = args,
          rq_bufsize = self_buffer_size p,
          rq_stdin = (if \<not> should_feed_stdin then cast_File stdin else Some PIPE),
          rq_stdout = self_stdout p,
          rq_stderr = self_stderr p,
          rq_creationflags = creationflags\<rparr>)"

definition with_heap :: "heap \<Rightarrow> ('a, process) action \<Rightarrow> process \<Rightarrow> 'a outcome \<times> process \<times> heap" where
  "with_heap hp m p = (case m p of (out, p') \<Rightarrow> (out, p', hp))"

section \<open>The blocking class \<open>Process\<close>\<close>

text \<open>
  The methods of \<open>process.py\<close>, statement by statement. \<open>run\<close> returns \<open>self\<close>, which is
  the state here, so its value is \<open>()\<close>.
\<close>

definition Process_join :: "real option \<Rightarrow> (unit, process) action" where
  "Process_join timeout =
     translate TimeoutExpired ProcessTimeoutError
       (before (on_process (popen_wait timeout)) (returns ()))"

definition Process_run :: "os \<Rightarrow> (unit, process \<times> heap) action" where
  "Process_run sys = (\<lambda>(p, hp).
     if self_process p \<noteq> None then (Raise ProcessAlreadyRunError, p, hp)
     else
       let (a, hp') = AbstractProcess_arguments p hp
       in case create_process sys (spawn_request sys p (hp' ! a)) of
            Inl exception \<Rightarrow>
              (Raise (ProcessError (''Failed to run process: '' @ exception)), p, hp')
          | Inr h \<Rightarrow>
              with_heap hp'
                (if is_bytes (self_stdin p)
                 then before (on_stdin (writer_write (cast_bytes (self_stdin p))))
                        (on_stdin writer_close)
                 else returns ())
                (p\<lparr>self_process := Some h\<rparr>))"

definition Process_output :: "bool \<Rightarrow> (bytes, process) action" where
  "Process_output join =
     before (if join then Process_join None else returns ())
       (before
          (andthen Process_stdout (\<lambda>r.
             if \<not> r_closed r then andthen (on_stdout reader_read) add_output
             else returns ()))
          (\<lambda>p. (Return (self_output p), p)))"

definition Process_error :: "bool \<Rightarrow> (bytes, process) action" where
  "Process_error join =
     before (if join then Process_join None else returns ())
       (before
          (andthen Process_stderr (\<lambda>r.
             if \<not> r_closed r then andthen (on_stderr reader_read) add_error
             else returns ()))
          (\<lambda>p. (Return (self_error p), p)))"

text \<open>
  The block that opens \<open>close\<close>, \<open>__exit__\<close> and \<open>__del__\<close>: close the standard input
  stream if it is a pipe and still open, under the two nested \<open>suppress\<close>.
\<close>

definition close_stdin :: "(unit, process) action" where
  "close_stdin =
     suppress [ProcessInvalidStreamError]
       (suppress [BrokenPipeError, ConnectionResetError]
          (andthen Process_stdin (\<lambda>w.
             if \<not> w_closed w then on_stdin writer_close else returns ())))"

definition Process_close :: "(unit, process) action" where
  "Process_close =
     before close_stdin
       (before (AbstractProcess_terminate Blocking)
          (before (Process_join None)
             (before
                (suppress [ProcessInvalidStreamError]
                   (andthen Process_stdout (\<lambda>r.
                      if \<not> r_closed r
                      then before (andthen (on_stdout reader_read) add_output)
                             (on_stdout reader_close)
                      else returns ())))
                (suppress [ProcessInvalidStreamError]
                   (andthen Process_stderr (\<lambda>r.
                      if \<not> r_closed r
                      then before (andthen (on_stderr reader_read) add_error)
                             (on_stderr reader_close)
                      else returns ()))))))"

definition Process_enter :: "os \<Rightarrow> (unit, process \<times> heap) action" where
  "Process_enter sys = Process_run sys"

text \<open>\<open>__exit__\<close>; \<open>exception_type\<close> is \<open>None\<close> when the \<open>with\<close> block ended normally.\<close>

definition Process_exit :: "string option \<Rightarrow> (unit, process) action" where
  "Process_exit exception_type =
     before close_stdin
       (before (if exception_type = None then Process_join None else returns ())
          (before
             (suppress [ProcessInvalidStreamError]
                (andthen Process_stdout (\<lambda>r.
                   if \<not> r_closed r
                   then before
                          (if exception_type = None
                           then andthen (on_stdout reader_read) add_output
                           else returns ())
                          (on_stdout reader_close)
                   else returns ())))
             (suppress [ProcessInvalidStreamError]
                (andthen Process_stderr (\<lambda>r.
                   if \<not> r_closed r
                   then before
                          (if exception_type = None
                           then andthen (on_stderr reader_read) add_error
                           else returns ())
                          (on_stderr reader_close)
                   else returns ())))))"

section \<open>The coroutine class \<open>process.asyncio.Process\<close>\<close>

text \<open>
  The methods of \<open>asyncio/process.py\<close>. Every \<open>await\<close> runs to completion before the
  next statement, so a coroutine is sequenced like a blocking method.
\<close>

definition AsyncProcess_join :: "real option \<Rightarrow> (unit, process) action" where
  "AsyncProcess_join timeout =
     translate TimeoutError ProcessTimeoutError
       (before (on_process (asyncio_wait timeout)) (returns ()))"

definition AsyncProcess_run :: "os \<Rightarrow> (unit, process \<times> heap) action" where
  "AsyncProcess_run sys = (\<lambda>(p, hp).
     if self_process p \<noteq> None then (Raise ProcessAlreadyRunError, p, hp)
     else
       let (a, hp') = AbstractProcess_arguments p hp
       in case create_process sys (spawn_request sys p (hp' ! a)) of
            Inl exception \<Rightarrow>
              (Raise (ProcessError (''Failed to run process: '' @ exception)), p, hp')
          | Inr h \<Rightarrow>
              with_heap hp'
                (if is_bytes (self_stdin p)
                 then before (on_stdin (stream_write (cast_bytes (self_stdin p))))
                        (before (on_stdin stream_drain)
                           (before (on_stdin stream_close)
                              (if os_py38 sys then on_stdin stream_wait_closed else returns ())))
                 else returns ())
                (p\<lparr>self_process := Some h\<rparr>))"

definition AsyncProcess_output :: "bool \<Rightarrow> (bytes, process) action" where
  "AsyncProcess_output join =
     before (if join then AsyncProcess_join None else returns ())
       (before (andthen (on_stdout stream_read) add_output)
          (\<lambda>p. (Return (self_output p), p)))"

definition AsyncProcess_error :: "bool \<Rightarrow> (bytes, process) action" where
  "AsyncProcess_error join =
     before (if join then AsyncProcess_join None else returns ())
       (before (andthen (on_stderr stream_read) add_error)
          (\<lambda>p. (Return (self_error p), p)))"

text \<open>The same opening block in \<open>close\<close>, \<open>__aexit__\<close> and \<open>__del__\<close> of this class.\<close>

definition async_close_stdin :: "os \<Rightarrow> (unit, process) action" where
  "async_close_stdin sys =
     suppress [ProcessInvalidStreamError]
       (suppress [BrokenPipeError, ConnectionResetError]
          (andthen Process_stdin (\<lambda>w.
             if \<not> w_closed w
             then before (on_stdin stream_close)
                    (if os_py38 sys then on_stdin stream_wait_closed else returns ())
             else returns ())))"

definition AsyncProcess_close :: "os \<Rightarrow> (unit, process) action" where
  "AsyncProcess_close sys =
     before (async_close_stdin sys)
       (before (AbstractProcess_terminate Coroutine)
          (before (AsyncProcess_join None)
             (before
                (suppress [ProcessInvalidStreamError]
                   (andthen (on_stdout stream_read) add_output))
                (suppress [ProcessInvalidStreamError]
                   (andthen (on_stderr stream_read) add_error)))))"

definition AsyncProcess_aenter :: "os \<Rightarrow> (unit, process \<times> heap) action" where
  "AsyncProcess_aenter sys = AsyncProcess_run sys"

definition AsyncProcess_aexit :: "os \<Rightarrow> string option \<Rightarrow> (unit, process) action" where
  "AsyncProcess_aexit sys exception_type =
     before (async_close_stdin sys)
       (before (if exception_type = None then AsyncProcess_join None else returns ())
          (before
             (suppress [ProcessInvalidStreamError]
                (if exception_type = None
                 then andthen (on_stdout stream_read) add_output
                 else returns ()))
             (suppress [ProcessInvalidStreamError]
                (if exception_type = None
                 then andthen (on_stderr stream_read) add_error
                 else returns ()))))"

section \<open>Both classes behind one interface\<close>

definition call_init ::
  "mode \<Rightarrow> int \<Rightarrow> (string \<Rightarrow> string list option) \<Rightarrow> arguments \<Rightarrow> source option \<Rightarrow>
   File option \<Rightarrow> File option \<Rightarrow> int option \<Rightarrow> (process, heap) action" where
  "call_init m default_buffer_size =
     (case m of
        Blocking \<Rightarrow> Process_init default_buffer_size
      | Coroutine \<Rightarrow> AsyncProcess_init)"

definition call_run :: "mode \<Rightarrow> os \<Rightarrow> (unit, process \<times> heap) action" where
  "call_run m sys = (case m of Blocking \<Rightarrow> Process_run sys | Coroutine \<Rightarrow> AsyncProcess_run sys)"

definition call_join :: "mode \<Rightarrow> real option \<Rightarrow> (unit, process) action" where
  "call_join m timeout =
     (case m of Blocking \<Rightarrow> Process_join timeout | Coroutine \<Rightarrow> AsyncProcess_join timeout)"

definition call_output :: "mode \<Rightarrow> bool \<Rightarrow> (bytes, process) action" where
  "call_output m join =
     (case m of Blocking \<Rightarrow> Process_output join | Coroutine \<Rightarrow> AsyncProcess_output join)"

definition call_error :: "mode \<Rightarrow> bool \<Rightarrow> (bytes, process) action" where
  "call_error m join =
     (case m of Blocking \<Rightarrow> Process_error join | Coroutine \<Rightarrow> AsyncProcess_error join)"

definition call_close :: "mode \<Rightarrow> os \<Rightarrow> (unit, process) action" where
  "call_close m sys = (case m of Blocking \<Rightarrow> Process_close | Coroutine \<Rightarrow> AsyncProcess_close sys)"

definition call_exit :: "mode \<Rightarrow> os \<Rightarrow> string option \<Rightarrow> (unit, process) action" where
  "call_exit m sys exception_type =
     (case m of
        Blocking \<Rightarrow> Process_exit exception_type
      | Coroutine \<Rightarrow> AsyncProcess_aexit sys exception_type)"

subsection \<open>A caller driving one record\<close>

text \<open>
  The caller owns the record and whatever list objects it has got hold of: those that
  existed before the constructor ran and those the property \<open>arguments\<close> returned. It
  may call any operation in any order (on whatever platform state \<open>os\<close> it meets at that
  moment) and overwrite any list it holds.
\<close>

record world =
  the_self :: process
  the_heap :: heap
  held :: "nat list"

datatype call =
    Run
  | Join "real option"
  | Output bool
  | Error bool
  | Signal int
  | Terminate
  | Kill
  | Close
  | Exit "string option"
  | Arguments
  | Mutate nat "string list"

definition perform :: "mode \<Rightarrow> os \<times> call \<Rightarrow> world \<Rightarrow> world" where
  "perform m = (\<lambda>(sys, c) w.
     case c of
       Run \<Rightarrow>
         (case call_run m sys (the_self w, the_heap w) of
            (out, p, hp) \<Rightarrow> w\<lparr>the_self := p, the_heap := hp\<rparr>)
     | Join timeout \<Rightarrow> w\<lparr>the_self := snd (call_join m timeout (the_self w))\<rparr>
     | Output join \<Rightarrow> w\<lparr>the_self := snd (call_output m join (the_self w))\<rparr>
     | Error join \<Rightarrow> w\<lparr>the_self := snd (call_error m join (the_self w))\<rparr>
     | Signal sig \<Rightarrow> w\<lparr>the_self := snd (AbstractProcess_signal m sig (the_self w))\<rparr>
     | Terminate \<Rightarrow> w\<lparr>the_self := snd (AbstractProcess_terminate m (the_self w))\<rparr>
     | Kill \<Rightarrow> w\<lparr>the_self := snd (AbstractProcess_kill m (the_self w))\<rparr>
     | Close \<Rightarrow> w\<lparr>the_self := snd (call_close m sys (the_self w))\<rparr>
     | Exit exception_type \<Rightarrow>
         w\<lparr>the_self := snd (call_exit m sys exception_type (the_self w))\<rparr>
     | Arguments \<Rightarrow>
         (case AbstractProcess_arguments (the_self w) (the_heap w) of
            (a, hp) \<Rightarrow> w\<lparr>the_heap := hp, held := a # held w\<rparr>)
     | Mutate a xs \<Rightarrow>
         if a \<in> set (held w) then w\<lparr>the_heap := (the_heap w)[a := xs]\<rparr> else w)"

fun perform_all :: "mode \<Rightarrow> (os \<times> call) list \<Rightarrow> world \<Rightarrow> world" where
  "perform_all m [] w = w"
| "perform_all m (c # cs) w = perform_all m cs (perform m c w)"

definition constructed :: "heap \<Rightarrow> process \<Rightarrow> heap \<Rightarrow> world" where
  "constructed hp0 p hp = \<lparr>the_self = p, the_heap = hp, held = [0..<length hp0]\<rparr>"

section \<open>Predicates used in the proofs\<close>


text \<open>
  What no operation after the spawn changes: the constructor's fields, the request the
  handle was created from, and which of the handle's three streams exist.
\<close>

definition handle_frame :: "popen \<Rightarrow> popen \<Rightarrow> bool" where
  "handle_frame h h' \<longleftrightarrow>
     p_request h' = p_request h \<and>
     (p_stdin h' = None \<longleftrightarrow> p_stdin h = None) \<and>
     (p_stdout h' = None \<longleftrightarrow> p_stdout h = None) \<and>
     (p_stderr h' = None \<longleftrightarrow> p_stderr h = None)"

definition frame :: "process \<Rightarrow> process \<Rightarrow> bool" where
  "frame p p' \<longleftrightarrow>
     self_arguments p' = self_arguments p \<and>
     self_stdin p' = self_stdin p \<and>
     self_stdout p' = self_stdout p \<and>
     self_stderr p' = self_stderr p \<and>
     (case self_process p of
        None \<Rightarrow> self_process p' = None
      | Some h \<Rightarrow> (\<exists>h'. self_process p' = Some h' \<and> handle_frame h h'))"

definition keeps :: "('a, process) action \<Rightarrow> bool" where
  "keeps m \<longleftrightarrow> (\<forall>p. frame p (snd (m p)))"

text \<open>The handle has a stream exactly for the dispositions that ask for a pipe.\<close>

definition wired :: "process \<Rightarrow> bool" where
  "wired p \<longleftrightarrow>
     (\<forall>h. self_process p = Some h \<longrightarrow>
        (p_stdin h \<noteq> None \<longleftrightarrow> is_bytes (self_stdin p) \<or> self_stdin p = Some (Handle PIPE)) \<and>
        (p_stdout h \<noteq> None \<longleftrightarrow> self_stdout p = Some PIPE) \<and>
        (p_stderr h \<noteq> None \<longleftrightarrow> self_stderr p = Some PIPE))"

text \<open>
  The record's own list object exists, is not among the lists the caller holds (which
  all exist), still has the constructor's contents, and these are what the child was
  created with.
\<close>

definition settled :: "string list \<Rightarrow> world \<Rightarrow> bool" where
  "settled tokens w \<longleftrightarrow>
     self_arguments (the_self w) < length (the_heap w) \<and>
     self_arguments (the_self w) \<notin> set (held w) \<and>
     (\<forall>a \<in> set (held w). a < length (the_heap w)) \<and>
     the_heap w ! self_arguments (the_self w) = tokens \<and>
     (\<forall>h. self_process (the_self w) = Some h \<longrightarrow> rq_args (p_request h) = tokens) \<and>
     wired (the_self w)"

text \<open>
  The resolved token list in the specification's words: a string is tokenized by shell
  rules, a path-like value is converted to a string, a sequence is converted element by
  element.
\<close>

definition resolved :: "(string \<Rightarrow> string list option) \<Rightarrow> arguments \<Rightarrow> string list option" where
  "resolved shlex_split arguments =
     (case arguments of
        Single (Str s) \<Rightarrow> shlex_split s
      | Single (Path q) \<Rightarrow> Some [q]
      | Sequence xs \<Rightarrow> Some (map fspath xs))"

subsection \<open>Sample inputs\<close>

definition sample_heap :: heap where
  "sample_heap = [[''cat'']]"

definition sample_record :: process where
  "sample_record =
     \<lparr>self_arguments = 0,
      self_stdin = Some (Buffer [104, 105]),
      self_stdout = Some PIPE,
      self_stderr = Some STDOUT,
      self_buffer_size = 0,
      self_output = [],
      self_error = [],
      self_process = None\<rparr>"

definition sample_child :: child where
  "sample_child =
     \<lparr>c_pid = 7, c_lifetime = Some 1, c_status = 0, c_ignored = [],
      c_stdin_cond = Flowing, c_stdout = [104, 105], c_stderr = []\<rparr>"

definition sample_os :: os where
  "sample_os = \<lparr>os_windows = False, os_py38 = True, os_create = (\<lambda>rq. Inr sample_child)\<rparr>"

definition failing_os :: os where
  "failing_os =
     \<lparr>os_windows = False, os_py38 = True, os_create = (\<lambda>rq. Inl ''FileNotFoundError()'')\<rparr>"

definition endless_os :: os where
  "endless_os =
     \<lparr>os_windows = False, os_py38 = True,
      os_create = (\<lambda>rq. Inr (sample_child\<lparr>c_lifetime := None\<rparr>))\<rparr>"

definition sample_handle :: popen where
  "sample_handle =
     \<lparr>p_request =
        \<lparr>rq_args = [''cat''], rq_bufsize = 0, rq_stdin = Some PIPE, rq_stdout = Some PIPE,
         rq_stderr = Some STDOUT, rq_creationflags = 0\<rparr>,
      p_pid = 7,
      p_stdin = Some \<lparr>w_closed = True, w_written = [104, 105], w_cond = Flowing\<rparr>,
      p_stdout = Some \<lparr>r_closed = False, r_pending = [104, 105]\<rparr>,
      p_stderr = None,
      p_returncode = None,
      p_remaining = Some 1,
      p_status = 0,
      p_ignored = []\<rparr>"

definition running_record :: process where
  "running_record = sample_record\<lparr>self_process := Some sample_handle\<rparr>"

definition quiet_record :: process where
  "quiet_record = sample_record\<lparr>self_stdin := None, self_stdout := None\<rparr>"

definition quiet_handle :: popen where
  "quiet_handle =
     sample_handle
       \<lparr>p_request := (p_request sample_handle)\<lparr>rq_stdin := None, rq_stdout := None\<rparr>,
        p_stdin := None,
        p_stdout := None\<rparr>"

text \<open>A caller that overwrites a list it got from the property \<open>arguments\<close>.\<close>

definition meddling :: "(os \<times> call) list" where
  "meddling =
     [(sample_os, Arguments), (sample_os, Mutate 1 [''rm'']), (sample_os, Run),
      (sample_os, Mutate 1 [])]"

section \<open>Lemmas\<close>

lemmas action_defs = returns_def raises_def andthen_def before_def suppress_def translate_def

lemmas stream_defs = writer_write_def writer_close_def reader_read_def reader_close_def
  stream_write_def stream_drain_def stream_close_def stream_wait_closed_def stream_read_def
  new_writer_def new_reader_def

lemmas property_defs = Process_process_def Process_stdin_def Process_stdout_def Process_stderr_def
  on_process_def on_stdin_def on_stdout_def on_stderr_def add_output_def add_error_def

lemmas wait_defs = popen_wait_def asyncio_wait_def wait_for_exit_def reap_def elapse_def
  popen_poll_def popen_send_signal_def asyncio_send_signal_def deliver_def

lemmas run_defs = call_run_def Process_run_def AsyncProcess_run_def AbstractProcess_arguments_def
  create_process_def with_heap_def

lemmas join_defs = call_join_def Process_join_def AsyncProcess_join_def

lemmas output_defs = call_output_def Process_output_def AsyncProcess_output_def
  call_error_def Process_error_def AsyncProcess_error_def

lemmas exit_defs = call_exit_def Process_exit_def AsyncProcess_aexit_def close_stdin_def
  async_close_stdin_def


lemmas sample_defs = sample_heap_def sample_record_def sample_child_def sample_os_def
  failing_os_def endless_os_def sample_handle_def running_record_def quiet_record_def
  quiet_handle_def
  PIPE_def STDOUT_def DEVNULL_def SIGTERM_def SIGKILL_def

subsection \<open>Clean-up steps do not raise on a spawned record\<close>


lemma os_error_pipe: "os_error e \<noteq> BrokenPipeError \<Longrightarrow> os_error e = ConnectionResetError"
  by (cases e) simp_all











subsection \<open>What every operation leaves alone\<close>

lemma frame_refl: "frame p p"
  by (simp add: frame_def handle_frame_def split: option.splits)

lemma frame_trans: "frame p q \<Longrightarrow> frame q r \<Longrightarrow> frame p r"
  by (auto simp: frame_def handle_frame_def split: option.splits)

lemma keeps_returns: "keeps (returns a)"
  by (simp add: keeps_def returns_def frame_refl)

lemma keeps_raises: "keeps (raises e)"
  by (simp add: keeps_def raises_def frame_refl)

lemma keeps_look: "keeps (\<lambda>p. (f p, p))"
  by (simp add: keeps_def frame_refl)

lemma keeps_andthen:
  assumes "keeps m" and "\<And>a. keeps (f a)"
  shows "keeps (andthen m f)"
  unfolding keeps_def
proof
  fix p
  obtain out q where mp: "m p = (out, q)" by (cases "m p")
  from assms(1) mp have pq: "frame p q" by (auto simp: keeps_def dest: spec [of _ p])
  show "frame p (snd (andthen m f p))"
  proof (cases out)
    case (Return a)
    from assms(2) have "frame q (snd (f a q))" by (simp add: keeps_def)
    with pq Return mp show ?thesis by (auto simp: andthen_def intro: frame_trans)
  next
    case (Raise e)
    with pq mp show ?thesis by (simp add: andthen_def)
  next
    case Block
    with pq mp show ?thesis by (simp add: andthen_def)
  qed
qed

lemma keeps_before: "keeps m \<Longrightarrow> keeps n \<Longrightarrow> keeps (before m n)"
  unfolding before_def by (rule keeps_andthen)

lemma keeps_suppress: "keeps m \<Longrightarrow> keeps (suppress es m)"
  by (auto simp: keeps_def suppress_def split: prod.splits outcome.splits dest: spec)
    (metis snd_conv)+

lemma keeps_translate: "keeps m \<Longrightarrow> keeps (translate e e' m)"
  by (auto simp: keeps_def translate_def split: prod.splits outcome.splits dest: spec)
    (metis snd_conv)+

lemma keeps_if: "keeps a \<Longrightarrow> keeps b \<Longrightarrow> keeps (if c then a else b)"
  by simp

lemma keeps_process: "keeps Process_process"
  by (simp add: keeps_def Process_process_def frame_refl split: option.splits)

lemma keeps_stdin: "keeps Process_stdin"
  unfolding Process_stdin_def
  by (intro keeps_andthen keeps_process) (simp add: keeps_returns keeps_raises split: option.splits)

lemma keeps_stdout: "keeps Process_stdout"
  unfolding Process_stdout_def
  by (intro keeps_andthen keeps_process) (simp add: keeps_returns keeps_raises split: option.splits)

lemma keeps_stderr: "keeps Process_stderr"
  unfolding Process_stderr_def
  by (intro keeps_andthen keeps_process) (simp add: keeps_returns keeps_raises split: option.splits)

lemma keeps_on_process:
  assumes "\<And>h. handle_frame h (snd (f h))"
  shows "keeps (on_process f)"
  unfolding keeps_def
proof
  fix p
  show "frame p (snd (on_process f p))"
  proof (cases "self_process p")
    case None
    then show ?thesis
      by (simp add: on_process_def andthen_def Process_process_def frame_refl)
  next
    case (Some h)
    with assms [of h] show ?thesis
      by (cases "f h") (auto simp: on_process_def andthen_def Process_process_def frame_def
          split: outcome.splits)
  qed
qed

lemma keeps_on_stdin: "keeps (on_stdin f)"
  unfolding keeps_def
proof
  fix p
  show "frame p (snd (on_stdin f p))"
    by (cases "self_process p"; cases "f (the (p_stdin (the (self_process p))))")
      (auto simp: on_stdin_def andthen_def Process_stdin_def Process_process_def raises_def returns_def
        frame_def handle_frame_def split: option.splits outcome.splits)
qed

lemma keeps_on_stdout: "keeps (on_stdout f)"
  unfolding keeps_def
proof
  fix p
  show "frame p (snd (on_stdout f p))"
    by (cases "self_process p"; cases "f (the (p_stdout (the (self_process p))))")
      (auto simp: on_stdout_def andthen_def Process_stdout_def Process_process_def raises_def returns_def
        frame_def handle_frame_def split: option.splits outcome.splits)
qed

lemma keeps_on_stderr: "keeps (on_stderr f)"
  unfolding keeps_def
proof
  fix p
  show "frame p (snd (on_stderr f p))"
    by (cases "self_process p"; cases "f (the (p_stderr (the (self_process p))))")
      (auto simp: on_stderr_def andthen_def Process_stderr_def Process_process_def raises_def returns_def
        frame_def handle_frame_def split: option.splits outcome.splits)
qed

lemma keeps_add_output: "keeps (add_output bs)"
  by (simp add: keeps_def add_output_def frame_def handle_frame_def split: option.splits)

lemma keeps_add_error: "keeps (add_error bs)"
  by (simp add: keeps_def add_error_def frame_def handle_frame_def split: option.splits)

lemma wait_frame: "handle_frame h (snd (wait_for_exit x t h))"
  by (simp add: wait_for_exit_def handle_frame_def reap_def elapse_def split: option.splits)

lemma signal_frame:
  "handle_frame h (snd (popen_send_signal sig h))" "handle_frame h (snd (asyncio_send_signal sig h))"
  by (simp_all add: popen_send_signal_def asyncio_send_signal_def popen_poll_def deliver_def
      handle_frame_def reap_def Let_def)

lemmas keeps_intros = keeps_before keeps_andthen keeps_suppress keeps_translate keeps_if
  keeps_returns keeps_raises keeps_look keeps_process keeps_stdin keeps_stdout keeps_stderr
  keeps_on_stdin keeps_on_stdout keeps_on_stderr keeps_add_output keeps_add_error

lemma keeps_join: "keeps (call_join m t)"
  unfolding call_join_def Process_join_def AsyncProcess_join_def popen_wait_def asyncio_wait_def
  by (cases m) (simp_all add: keeps_intros keeps_on_process wait_frame)

lemma keeps_signal: "keeps (AbstractProcess_signal m sig)"
  unfolding AbstractProcess_signal_def
  by (cases m) (simp_all add: keeps_on_process signal_frame)

lemma keeps_terminate: "keeps (AbstractProcess_terminate m)"
  unfolding AbstractProcess_terminate_def
  by (cases m) (simp_all add: keeps_on_process signal_frame)

lemma keeps_kill: "keeps (AbstractProcess_kill m)"
  unfolding AbstractProcess_kill_def
  by (cases m) (simp_all add: keeps_on_process signal_frame)

lemma keeps_output: "keeps (call_output m j)"
  unfolding call_output_def Process_output_def AsyncProcess_output_def
  using keeps_join [of Blocking None] keeps_join [of Coroutine None]
  by (cases m) (simp_all add: call_join_def keeps_intros)

lemma keeps_error: "keeps (call_error m j)"
  unfolding call_error_def Process_error_def AsyncProcess_error_def
  using keeps_join [of Blocking None] keeps_join [of Coroutine None]
  by (cases m) (simp_all add: call_join_def keeps_intros)

lemma keeps_close_stdin: "keeps close_stdin" "keeps (async_close_stdin sys)"
  unfolding close_stdin_def async_close_stdin_def
  by (simp_all add: keeps_intros)

lemma keeps_close: "keeps (call_close m sys)"
  unfolding call_close_def Process_close_def AsyncProcess_close_def
  using keeps_join [of Blocking None] keeps_join [of Coroutine None]
    keeps_terminate [of Blocking] keeps_terminate [of Coroutine]
  by (cases m) (simp_all add: call_join_def keeps_intros keeps_close_stdin)

lemma keeps_exit: "keeps (call_exit m sys x)"
  unfolding call_exit_def Process_exit_def AsyncProcess_aexit_def
  using keeps_join [of Blocking None] keeps_join [of Coroutine None]
  by (cases m) (simp_all add: call_join_def keeps_intros keeps_close_stdin)

subsection \<open>Invariants of a record driven by a caller\<close>

lemma frame_wired: "frame p q \<Longrightarrow> wired p \<Longrightarrow> wired q"
  by (auto simp: frame_def wired_def handle_frame_def split: option.splits)

lemma frame_request:
  "frame p q \<Longrightarrow> self_process q = Some h' \<Longrightarrow> \<exists>h. self_process p = Some h \<and> p_request h = p_request h'"
  by (auto simp: frame_def handle_frame_def split: option.splits)

lemma frame_settled:
  assumes "frame (the_self w) q" and "settled tokens w"
  shows "settled tokens (w\<lparr>the_self := q\<rparr>)"
proof -
  from assms have "wired q" by (auto simp: settled_def intro: frame_wired)
  moreover have "\<forall>h'. self_process q = Some h' \<longrightarrow> rq_args (p_request h') = tokens"
    using assms frame_request [of "the_self w" q] by (fastforce simp: settled_def)
  moreover from assms have "self_arguments q = self_arguments (the_self w)"
    by (simp add: frame_def)
  ultimately show ?thesis using assms(2) by (simp add: settled_def)
qed

lemma keeps_settled: "keeps m \<Longrightarrow> settled tokens w \<Longrightarrow> settled tokens (w\<lparr>the_self := snd (m (the_self w))\<rparr>)"
  by (rule frame_settled) (simp_all add: keeps_def)

lemma created_wired:
  assumes "create_process sys (spawn_request sys p args) = Inr h"
  shows "wired (p\<lparr>self_process := Some h\<rparr>)" and "p_request h = spawn_request sys p args"
  using assms
  by (auto simp: create_process_def wired_def spawn_request_def is_bytes_def cast_File_def
      new_writer_def new_reader_def
      split: sum.splits option.splits source.splits if_splits)

lemma keeps_feed:
  "keeps (if is_bytes (self_stdin p)
                 then before (on_stdin (writer_write (cast_bytes (self_stdin p))))
                        (on_stdin writer_close)
                 else returns ())"
  "keeps (if is_bytes (self_stdin p)
                 then before (on_stdin (stream_write (cast_bytes (self_stdin p))))
                        (before (on_stdin stream_drain)
                           (before (on_stdin stream_close)
                              (if os_py38 sys then on_stdin stream_wait_closed else returns ())))
                 else returns ())"
  by (simp_all add: keeps_intros)

lemma run_shape:
  assumes "call_run m sys (p, hp) = (out, q, hq)"
  shows "(hq = hp \<or> hq = hp @ [hp ! self_arguments p]) \<and>
         (q = p \<or> (\<exists>h. create_process sys (spawn_request sys p (hp ! self_arguments p)) = Inr h \<and>
                      frame (p\<lparr>self_process := Some h\<rparr>) q))"
proof (cases "self_process p")
  case (Some h)
  with assms show ?thesis
    by (cases m) (simp_all add: call_run_def Process_run_def AsyncProcess_run_def)
next
  case None
  show ?thesis
  proof (cases "create_process sys (spawn_request sys p (hp ! self_arguments p))")
    case (Inl cause)
    with None assms show ?thesis
      by (cases m) (auto simp: call_run_def Process_run_def AsyncProcess_run_def AbstractProcess_arguments_def)
  next
    case (Inr h)
    show ?thesis
    proof (cases m)
      case Blocking
      with None Inr assms keeps_feed(1) [of p] show ?thesis
        by (auto simp: call_run_def Process_run_def AbstractProcess_arguments_def with_heap_def
            keeps_def split: prod.splits dest: spec [of _ "p\<lparr>self_process := Some h\<rparr>"])
    next
      case Coroutine
      with None Inr assms keeps_feed(2) [of p sys] show ?thesis
        by (auto simp: call_run_def AsyncProcess_run_def AbstractProcess_arguments_def with_heap_def
            keeps_def split: prod.splits dest: spec [of _ "p\<lparr>self_process := Some h\<rparr>"])
    qed
  qed
qed

lemma run_settled:
  assumes "settled tokens w"
    and "call_run m sys (the_self w, the_heap w) = (out, q, hq)"
  shows "settled tokens (w\<lparr>the_self := q, the_heap := hq\<rparr>)"
proof -
  let ?p = "the_self w" and ?hp = "the_heap w"
  from run_shape [OF assms(2)]
  have heap: "hq = ?hp \<or> hq = ?hp @ [?hp ! self_arguments ?p]"
    and rec: "q = ?p \<or> (\<exists>h. create_process sys (spawn_request sys ?p (?hp ! self_arguments ?p)) = Inr h \<and>
                      frame (?p\<lparr>self_process := Some h\<rparr>) q)"
    by simp_all
  from assms(1) have a: "self_arguments ?p < length ?hp" by (simp add: settled_def)
  with heap have h1: "self_arguments ?p < length hq"
    and h2: "hq ! self_arguments ?p = ?hp ! self_arguments ?p"
    by (auto simp: nth_append)
  from assms(1) heap have h3: "\<forall>a \<in> set (held w). a < length hq"
    by (auto simp: settled_def)
  from rec show ?thesis
  proof
    assume "q = ?p"
    with assms(1) h1 h2 h3 show ?thesis by (simp add: settled_def)
  next
    assume "\<exists>h. create_process sys (spawn_request sys ?p (?hp ! self_arguments ?p)) = Inr h \<and>
                      frame (?p\<lparr>self_process := Some h\<rparr>) q"
    then obtain h where c: "create_process sys (spawn_request sys ?p (?hp ! self_arguments ?p)) = Inr h"
      and f: "frame (?p\<lparr>self_process := Some h\<rparr>) q" by blast
    from created_wired [OF c] f have "wired q" by (blast intro: frame_wired)
    moreover have "\<forall>h'. self_process q = Some h' \<longrightarrow> rq_args (p_request h') = tokens"
      using frame_request [OF f] created_wired(2) [OF c] assms(1)
      by (fastforce simp: settled_def spawn_request_def Let_def)
    moreover from f have "self_arguments q = self_arguments ?p" by (simp add: frame_def)
    ultimately show ?thesis using assms(1) h1 h2 h3 by (simp add: settled_def)
  qed
qed

lemma perform_settled:
  assumes "settled tokens w"
  shows "settled tokens (perform m c w)"
proof -
  obtain sys k where c: "c = (sys, k)" by (cases c)
  show ?thesis
  proof (cases k)
    case Run
    obtain out q hq where r: "call_run m sys (the_self w, the_heap w) = (out, q, hq)"
      by (cases "call_run m sys (the_self w, the_heap w)") auto
    with run_settled [OF assms r] c Run show ?thesis by (simp add: perform_def)
  next
    case (Join t)
    with c keeps_settled [OF keeps_join assms] show ?thesis by (simp add: perform_def)
  next
    case (Output j)
    with c keeps_settled [OF keeps_output assms] show ?thesis by (simp add: perform_def)
  next
    case (Error j)
    with c keeps_settled [OF keeps_error assms] show ?thesis by (simp add: perform_def)
  next
    case (Signal sig)
    with c keeps_settled [OF keeps_signal assms] show ?thesis by (simp add: perform_def)
  next
    case Terminate
    with c keeps_settled [OF keeps_terminate assms] show ?thesis by (simp add: perform_def)
  next
    case Kill
    with c keeps_settled [OF keeps_kill assms] show ?thesis by (simp add: perform_def)
  next
    case Close
    with c keeps_settled [OF keeps_close assms] show ?thesis by (simp add: perform_def)
  next
    case (Exit x)
    with c keeps_settled [OF keeps_exit assms] show ?thesis by (simp add: perform_def)
  next
    case Arguments
    with c assms show ?thesis
      by (auto simp: perform_def AbstractProcess_arguments_def settled_def nth_append)
  next
    case (Mutate a xs)
    show ?thesis
    proof (cases "a \<in> set (held w)")
      case True
      with assms have "a \<noteq> self_arguments (the_self w)" by (auto simp: settled_def)
      with True c Mutate assms show ?thesis by (simp add: perform_def settled_def)
    next
      case False
      with c Mutate assms show ?thesis by (simp add: perform_def)
    qed
  qed
qed

lemma perform_all_settled: "settled tokens w \<Longrightarrow> settled tokens (perform_all m cs w)"
  by (induction cs arbitrary: w) (simp_all add: perform_settled)

lemma init_settled:
  assumes "call_init m d shlex_split arguments stdin stdout stderr bs hp0 = (Return p, hp)"
  shows "\<exists>tokens. resolved shlex_split arguments = Some tokens \<and> settled tokens (constructed hp0 p hp)"
  using assms
  by (cases m)
    (auto simp: call_init_def Process_init_def AsyncProcess_init_def AbstractProcess_init_def
      as_sequence_def resolved_def settled_def constructed_def wired_def comp_def
      split: option.splits arguments.splits str_or_path.splits)

subsection \<open>The sample inputs at work\<close>

lemma os_create_simps:
  "os_create sample_os rq = Inr sample_child"
  "os_create failing_os rq = Inl ''FileNotFoundError()''"
  "os_create endless_os rq = Inr (sample_child\<lparr>c_lifetime := None\<rparr>)"
  by (simp_all add: sample_os_def failing_os_def endless_os_def)

lemma run_sample:
  "call_run m sample_os (sample_record, sample_heap) =
     (Return (), running_record, sample_heap @ [[''cat'']])"
  by (cases m)
    (simp_all add: run_defs spawn_request_def is_bytes_def cast_bytes_def action_defs
      property_defs stream_defs sample_defs)

lemma init_quiet:
  "call_init m 0 (\<lambda>s. None) (Sequence [Path ''cat'']) None None (Some STDOUT) (Some 0) []
     = (Return quiet_record, sample_heap)"
  by (cases m)
    (simp_all add: call_init_def Process_init_def AsyncProcess_init_def AbstractProcess_init_def
      as_sequence_def sample_defs)

lemma spawn_quiet:
  "perform_all m [(sample_os, Run)] (constructed [] quiet_record sample_heap)
     = \<lparr>the_self = quiet_record\<lparr>self_process := Some quiet_handle\<rparr>,
        the_heap = [[''cat''], [''cat'']], held = []\<rparr>"
  by (cases m)
    (simp_all add: perform_def constructed_def run_defs spawn_request_def is_bytes_def
      cast_File_def action_defs sample_defs quiet_handle_def)

lemma meddling_quiet:
  "perform_all m meddling (constructed [] quiet_record sample_heap)
     = \<lparr>the_self = quiet_record\<lparr>self_process := Some quiet_handle\<rparr>,
        the_heap = [[''cat''], [], [''cat'']], held = [1]\<rparr>"
  by (cases m)
    (simp_all add: meddling_def perform_def constructed_def run_defs spawn_request_def is_bytes_def
      cast_File_def action_defs sample_defs quiet_handle_def)

subsection \<open>Access to streams and accumulators\<close>

lemma unstarted_access:
  assumes "self_process p = None"
  shows "fst (Process_stdin p) = Raise ProcessNotRunError \<and>
         fst (Process_stdout p) = Raise ProcessNotRunError \<and>
         fst (Process_stderr p) = Raise ProcessNotRunError \<and>
         fst (call_output m j p) = Raise ProcessNotRunError \<and>
         fst (call_error m j p) = Raise ProcessNotRunError"
  using assms
  by (cases m; cases j) (simp_all add: output_defs join_defs action_defs property_defs)

lemma unpiped_stdin:
  assumes "wired p" and "self_process p = Some h"
    and "\<not> is_bytes (self_stdin p) \<and> self_stdin p \<noteq> Some (Handle PIPE)"
  shows "fst (Process_stdin p) = Raise ProcessInvalidStreamError"
proof -
  from assms have "p_stdin h = None" by (simp add: wired_def)
  with assms(2) show ?thesis by (simp add: action_defs property_defs)
qed

lemma unpiped_stdout:
  assumes "wired p" and "self_process p = Some h" and "self_stdout p \<noteq> Some PIPE"
  shows "fst (Process_stdout p) = Raise ProcessInvalidStreamError \<and>
         fst (call_output m j p) =
           (if j \<and> p_returncode h = None \<and> p_remaining h = None then Block
            else Raise ProcessInvalidStreamError)"
proof -
  from assms have "p_stdout h = None" by (simp add: wired_def)
  with assms(2) show ?thesis
    by (cases m; cases j; cases "p_returncode h"; cases "p_remaining h")
      (simp_all add: output_defs join_defs action_defs property_defs wait_defs exits_within_def)
qed

lemma unpiped_stderr:
  assumes "wired p" and "self_process p = Some h" and "self_stderr p \<noteq> Some PIPE"
  shows "fst (Process_stderr p) = Raise ProcessInvalidStreamError \<and>
         fst (call_error m j p) =
           (if j \<and> p_returncode h = None \<and> p_remaining h = None then Block
            else Raise ProcessInvalidStreamError)"
proof -
  from assms have "p_stderr h = None" by (simp add: wired_def)
  with assms(2) show ?thesis
    by (cases m; cases j; cases "p_returncode h"; cases "p_remaining h")
      (simp_all add: output_defs join_defs action_defs property_defs wait_defs exits_within_def)
qed

subsection \<open>Clean-up that comes back\<close>


lemma exit_returns:
  assumes "self_process p \<noteq> None"
  shows "fst (call_exit m sys (Some x) p) = Return ()"
proof -
  from assms obtain h where h: "self_process p = Some h" by auto
  show ?thesis
  proof (cases m)
    case Blocking
    with h show ?thesis
      by (cases "p_stdin h"; cases "p_stdout h"; cases "p_stderr h")
        (auto simp: exit_defs action_defs property_defs stream_defs
          split: pipe_cond.splits dest: os_error_pipe)
  next
    case Coroutine
    with h show ?thesis
      by (cases "p_stdin h")
        (auto simp: exit_defs action_defs property_defs stream_defs
          split: pipe_cond.splits dest: os_error_pipe)
  qed
qed

section \<open>The claims\<close>

text \<open>
  In every statement \<open>m\<close> ranges over the two classes (\<open>Blocking\<close> is \<open>Process\<close>,
  \<open>Coroutine\<close> is \<open>process.asyncio.Process\<close>) and \<open>sys\<close> over the platform and the
  behaviour of the creation primitive. \<open>fst\<close> of a call is its outcome, \<open>snd\<close> the
  state it leaves.
\<close>

subsection \<open>C1: \<open>close\<close>\<close>




subsection \<open>C2: leaving a \<open>with\<close> block through an exception\<close>

text \<open>
  C2, the claim as stated fails for the blocking class: \<open>__exit__\<close> closes the standard
  output and standard error streams also when an exception is propagating, without
  reading them. The unread bytes are not left for the caller: before the exit
  \<open>output()\<close> returns them, after it the stream is closed and the same call returns the
  empty accumulator.
\<close>

theorem blocking_exit_discards_unread_output_counterexample:
  "map_option p_stdout (self_process running_record)
     = Some (Some \<lparr>r_closed = False, r_pending = [104, 105]\<rparr>) \<and>
   map_option p_stdout (self_process (snd (call_exit Blocking sample_os (Some ''KeyError'') running_record)))
     = Some (Some \<lparr>r_closed = True, r_pending = [104, 105]\<rparr>) \<and>
   fst (call_output Blocking True running_record) = Return [104, 105] \<and>
   fst (call_output Blocking True (snd (call_exit Blocking sample_os (Some ''KeyError'') running_record)))
     = Return []"
  by (simp add: exit_defs output_defs join_defs action_defs property_defs stream_defs wait_defs
      exits_within_def sample_defs)

text \<open>
  C2, as amended: when the scope exits because an exception is propagating, the exit
  handler of either class returns without raising on a spawned record (so the original
  exception goes on) and skips the join and both drain steps: the two accumulators,
  the handle's return code and the child's remaining running time are unchanged. The
  coroutine class leaves the standard output and standard error streams as they were;
  the blocking class closes them, unread.
\<close>

theorem exit_on_exception_skips_join_and_drain:
  "(self_process p \<noteq> None \<longrightarrow> fst (call_exit m sys (Some x) p) = Return ()) \<and>
   self_output (snd (call_exit m sys (Some x) p)) = self_output p \<and>
   self_error (snd (call_exit m sys (Some x) p)) = self_error p \<and>
   map_option p_returncode (self_process (snd (call_exit m sys (Some x) p)))
     = map_option p_returncode (self_process p) \<and>
   map_option p_remaining (self_process (snd (call_exit m sys (Some x) p)))
     = map_option p_remaining (self_process p) \<and>
   (m = Coroutine \<longrightarrow>
      map_option p_stdout (self_process (snd (call_exit m sys (Some x) p)))
        = map_option p_stdout (self_process p) \<and>
      map_option p_stderr (self_process (snd (call_exit m sys (Some x) p)))
        = map_option p_stderr (self_process p)) \<and>
   (m = Blocking \<longrightarrow>
      map_option p_stdout (self_process (snd (call_exit m sys (Some x) p)))
        = map_option (\<lambda>h. map_option (\<lambda>r. r\<lparr>r_closed := True\<rparr>) (p_stdout h)) (self_process p) \<and>
      map_option p_stderr (self_process (snd (call_exit m sys (Some x) p)))
        = map_option (\<lambda>h. map_option (\<lambda>r. r\<lparr>r_closed := True\<rparr>) (p_stderr h)) (self_process p))"
proof (cases "self_process p")
  case None
  then show ?thesis
    by (cases m) (simp_all add: exit_defs action_defs property_defs)
next
  case (Some h)
  then have r: "fst (call_exit m sys (Some x) p) = Return ()"
    by (simp add: exit_returns)
  show ?thesis
  proof (cases m)
    case Blocking
    with Some r show ?thesis
      by (cases "p_stdin h"; cases "p_stdout h"; cases "p_stderr h")
        (auto simp: exit_defs action_defs property_defs stream_defs
          split: pipe_cond.splits dest: os_error_pipe)
  next
    case Coroutine
    with Some r show ?thesis
      by (cases "p_stdin h")
        (auto simp: exit_defs action_defs property_defs stream_defs
          split: pipe_cond.splits dest: os_error_pipe)
  qed
qed

text \<open>C2, witness: the running sample record, in both classes.\<close>

theorem exit_on_exception_skips_join_and_drain_witness:
  "self_process running_record \<noteq> None \<and>
   fst (call_exit Blocking sample_os (Some ''KeyError'') running_record) = Return () \<and>
   fst (call_exit Coroutine sample_os (Some ''KeyError'') running_record) = Return () \<and>
   self_output (snd (call_exit Blocking sample_os (Some ''KeyError'') running_record)) = [] \<and>
   self_output (snd (call_exit Coroutine sample_os (Some ''KeyError'') running_record)) = [] \<and>
   map_option p_returncode
     (self_process (snd (call_exit Blocking sample_os (Some ''KeyError'') running_record))) = Some None \<and>
   map_option p_stdout
     (self_process (snd (call_exit Coroutine sample_os (Some ''KeyError'') running_record)))
     = Some (Some \<lparr>r_closed = False, r_pending = [104, 105]\<rparr>) \<and>
   map_option p_stdout
     (self_process (snd (call_exit Blocking sample_os (Some ''KeyError'') running_record)))
     = Some (Some \<lparr>r_closed = True, r_pending = [104, 105]\<rparr>)"
proof -
  have a: "self_output running_record = []"
    and b: "map_option p_returncode (self_process running_record) = Some None"
    and c: "map_option p_stdout (self_process running_record)
       = Some (Some \<lparr>r_closed = False, r_pending = [104, 105]\<rparr>)"
    and d: "map_option (\<lambda>h. map_option (\<lambda>r. r\<lparr>r_closed := True\<rparr>) (p_stdout h)) (self_process running_record)
       = Some (Some \<lparr>r_closed = True, r_pending = [104, 105]\<rparr>)"
    by (simp_all add: sample_defs)
  have e: "self_process running_record \<noteq> None"
    by (simp add: running_record_def)
  show ?thesis
    using a b c d e
      exit_on_exception_skips_join_and_drain
        [where m = Blocking and sys = sample_os and x = "''KeyError''" and p = running_record]
      exit_on_exception_skips_join_and_drain
        [where m = Coroutine and sys = sample_os and x = "''KeyError''" and p = running_record]
    by simp
qed

subsection \<open>C3: \<open>run\<close> after a failed \<open>run\<close>\<close>

text \<open>
  C3, the claim as stated fails: after a \<open>run\<close> that raised \<open>ProcessError\<close> because the
  executable was missing, a second \<open>run\<close> on the same record, once the executable is
  there, creates the process and returns. Nothing records the failed attempt:
  \<open>self._process\<close> is assigned only when creation succeeds.
\<close>

theorem retry_after_failed_spawn_counterexample:
  "fst (call_run Blocking failing_os (sample_record, sample_heap))
     = Raise (ProcessError ''Failed to run process: FileNotFoundError()'') \<and>
   call_run Blocking sample_os (snd (call_run Blocking failing_os (sample_record, sample_heap)))
     = (Return (), running_record, sample_heap @ [[''cat''], [''cat'']]) \<and>
   fst (call_run Coroutine failing_os (sample_record, sample_heap))
     = Raise (ProcessError ''Failed to run process: FileNotFoundError()'') \<and>
   call_run Coroutine sample_os (snd (call_run Coroutine failing_os (sample_record, sample_heap)))
     = (Return (), running_record, sample_heap @ [[''cat''], [''cat'']]) \<and>
   self_process running_record \<noteq> None"
  by (simp add: run_defs spawn_request_def is_bytes_def cast_bytes_def action_defs
      property_defs stream_defs sample_defs)

text \<open>
  C3, as amended: a \<open>run\<close> that failed with \<open>ProcessError\<close> leaves the record
  unchanged, and a later \<open>run\<close> on the same record does what a first \<open>run\<close> on it would
  do under the same conditions: same outcome, same resulting record. (Only a record that
  holds a handle refuses \<open>run\<close>; that is C6.)
\<close>

theorem failed_spawn_can_be_retried:
  assumes "self_process p = None" and "self_arguments p < length hp"
    and "os_create sys (spawn_request sys p (hp ! self_arguments p)) = Inl cause"
  shows "fst (snd (call_run m sys (p, hp))) = p \<and>
     fst (call_run m sys' (snd (call_run m sys (p, hp)))) = fst (call_run m sys' (p, hp)) \<and>
     fst (snd (call_run m sys' (snd (call_run m sys (p, hp))))) = fst (snd (call_run m sys' (p, hp)))"
  using assms
  by (cases m)
   (auto simp add: run_defs nth_append split: sum.splits prod.splits)

text \<open>C3, witness: the sample record, first without and then with the executable.\<close>

theorem failed_spawn_can_be_retried_witness:
  "self_process sample_record = None \<and>
   self_arguments sample_record < length sample_heap \<and>
   os_create failing_os
     (spawn_request failing_os sample_record (sample_heap ! self_arguments sample_record))
     = Inl ''FileNotFoundError()'' \<and>
   fst (call_run Blocking sample_os (snd (call_run Blocking failing_os (sample_record, sample_heap))))
     = Return () \<and>
   fst (snd (call_run Blocking sample_os (snd (call_run Blocking failing_os (sample_record, sample_heap)))))
     = running_record \<and>
   fst (call_run Coroutine sample_os (snd (call_run Coroutine failing_os (sample_record, sample_heap))))
     = Return () \<and>
   fst (snd (call_run Coroutine sample_os (snd (call_run Coroutine failing_os (sample_record, sample_heap)))))
     = running_record"
proof -
  have a: "self_process sample_record = None"
    and b: "self_arguments sample_record < length sample_heap"
    by (simp_all add: sample_record_def sample_heap_def)
  have c: "os_create failing_os
      (spawn_request failing_os sample_record (sample_heap ! self_arguments sample_record))
      = Inl ''FileNotFoundError()''"
    by (simp add: failing_os_def)
  show ?thesis
    using a b c run_sample [of Blocking] run_sample [of Coroutine]
      failed_spawn_can_be_retried [OF a b c, of Blocking sample_os]
      failed_spawn_can_be_retried [OF a b c, of Coroutine sample_os]
    by simp
qed

subsection \<open>C4: a failed spawn is atomic\<close>

text \<open>
  C4. When the creation primitive fails on a record that has no handle, \<open>run\<close> raises
  \<open>ProcessError\<close> with a message that contains the \<open>repr\<close> of the underlying exception,
  and the record is exactly what it was: it still has no handle and both accumulators
  are unchanged. This holds for the blocking and for the coroutine class.
\<close>

theorem failed_spawn_leaves_record_unstarted:
  assumes "self_process p = None"
    and "os_create sys (spawn_request sys p (hp ! self_arguments p)) = Inl cause"
  shows "fst (call_run m sys (p, hp)) = Raise (ProcessError (''Failed to run process: '' @ cause)) \<and>
         fst (snd (call_run m sys (p, hp))) = p \<and>
         self_process (fst (snd (call_run m sys (p, hp)))) = None \<and>
         self_output (fst (snd (call_run m sys (p, hp)))) = self_output p \<and>
         self_error (fst (snd (call_run m sys (p, hp)))) = self_error p"
  using assms by (cases m) (simp_all add: run_defs)

text \<open>C4, witness: the sample record and a platform without the executable.\<close>

theorem failed_spawn_leaves_record_unstarted_witness:
  "self_process sample_record = None \<and>
   os_create failing_os
     (spawn_request failing_os sample_record (sample_heap ! self_arguments sample_record))
     = Inl ''FileNotFoundError()'' \<and>
   fst (call_run Blocking failing_os (sample_record, sample_heap))
     = Raise (ProcessError ''Failed to run process: FileNotFoundError()'') \<and>
   fst (call_run Coroutine failing_os (sample_record, sample_heap))
     = Raise (ProcessError ''Failed to run process: FileNotFoundError()'') \<and>
   fst (snd (call_run Blocking failing_os (sample_record, sample_heap))) = sample_record \<and>
   fst (snd (call_run Coroutine failing_os (sample_record, sample_heap))) = sample_record"
proof -
  have a: "self_process sample_record = None"
    by (simp add: sample_record_def)
  have b: "os_create failing_os
      (spawn_request failing_os sample_record (sample_heap ! self_arguments sample_record))
      = Inl ''FileNotFoundError()''"
    by (simp add: failing_os_def)
  show ?thesis
    using a b failed_spawn_leaves_record_unstarted [OF a b, of Blocking]
      failed_spawn_leaves_record_unstarted [OF a b, of Coroutine]
    by simp
qed

subsection \<open>C5: standard input given as bytes\<close>



subsection \<open>C6: one spawn per record\<close>



subsection \<open>C7: a join that times out\<close>

text \<open>
  C7. On a record whose child has not been reaped and does not exit within the
  time-out, \<open>join(timeout)\<close> raises \<open>ProcessTimeoutError\<close>. The record and its handle are
  as before except that the waited time has passed for the child, which is still alive:
  nothing was terminated or killed, no stream and no accumulator was touched. Afterwards
  a \<open>join()\<close> without time-out returns if the child ever exits, and \<open>terminate()\<close> and
  \<open>kill()\<close> are accepted. In both classes.
\<close>

theorem timed_out_join_leaves_process_running:
  assumes "self_process p = Some h"
    and "p_returncode h = None"
    and "\<not> exits_within (Some t) h"
  shows "call_join m (Some t) p =
           (Raise ProcessTimeoutError,
            p\<lparr>self_process :=
                Some (h\<lparr>p_remaining := map_option (\<lambda>r. r - max 0 t) (p_remaining h)\<rparr>)\<rparr>) \<and>
         alive (h\<lparr>p_remaining := map_option (\<lambda>r. r - max 0 t) (p_remaining h)\<rparr>) \<and>
         (p_remaining h \<noteq> None \<longrightarrow>
            fst (call_join m None (snd (call_join m (Some t) p))) = Return ()) \<and>
         fst (AbstractProcess_terminate m (snd (call_join m (Some t) p))) = Return () \<and>
         fst (AbstractProcess_kill m (snd (call_join m (Some t) p))) = Return ()"
proof -
  let ?h = "h\<lparr>p_remaining := map_option (\<lambda>r. r - max 0 t) (p_remaining h)\<rparr>"
  from assms have j: "call_join m (Some t) p = (Raise ProcessTimeoutError, p\<lparr>self_process := Some ?h\<rparr>)"
    by (cases m) (simp_all add: join_defs action_defs property_defs wait_defs)
  from assms(2,3) have a: "alive ?h"
    by (auto simp: alive_def exits_within_def split: option.splits)
  have r: "p_remaining h \<noteq> None \<longrightarrow> fst (call_join m None (p\<lparr>self_process := Some ?h\<rparr>)) = Return ()"
    using assms(2)
    by (cases m)
      (auto simp: join_defs action_defs property_defs wait_defs exits_within_def split: option.splits)
  have k: "fst (AbstractProcess_terminate m (p\<lparr>self_process := Some ?h\<rparr>)) = Return ()"
    "fst (AbstractProcess_kill m (p\<lparr>self_process := Some ?h\<rparr>)) = Return ()"
    by (cases m; simp add: AbstractProcess_terminate_def AbstractProcess_kill_def action_defs
        property_defs wait_defs Let_def)+
  from j a r k show ?thesis by simp
qed

text \<open>C7, witness: the running sample, which has one second left, joined for half a second.\<close>

theorem timed_out_join_leaves_process_running_witness:
  "self_process running_record = Some sample_handle \<and>
   p_returncode sample_handle = None \<and>
   \<not> exits_within (Some (1 / 2)) sample_handle \<and>
   call_join Blocking (Some (1 / 2)) running_record =
     (Raise ProcessTimeoutError,
      running_record\<lparr>self_process := Some (sample_handle\<lparr>p_remaining := Some (1 / 2)\<rparr>)\<rparr>) \<and>
   call_join Coroutine (Some (1 / 2)) running_record =
     (Raise ProcessTimeoutError,
      running_record\<lparr>self_process := Some (sample_handle\<lparr>p_remaining := Some (1 / 2)\<rparr>)\<rparr>) \<and>
   fst (call_join Blocking None (snd (call_join Blocking (Some (1 / 2)) running_record))) = Return ()"
proof -
  have a: "self_process running_record = Some sample_handle"
    by (simp add: running_record_def)
  have b: "p_returncode sample_handle = None"
    by (simp add: sample_handle_def)
  have c: "\<not> exits_within (Some (1 / 2)) sample_handle"
    by (simp add: exits_within_def sample_handle_def)
  have d: "p_remaining sample_handle = Some 1"
    by (simp add: sample_handle_def)
  note blocking = timed_out_join_leaves_process_running [OF a b c, of Blocking]
  note coroutine = timed_out_join_leaves_process_running [OF a b c, of Coroutine]
  from blocking d have e: "call_join Blocking (Some (1 / 2)) running_record =
     (Raise ProcessTimeoutError,
      running_record\<lparr>self_process := Some (sample_handle\<lparr>p_remaining := Some (1 / 2)\<rparr>)\<rparr>)"
    by simp
  from coroutine d have f: "call_join Coroutine (Some (1 / 2)) running_record =
     (Raise ProcessTimeoutError,
      running_record\<lparr>self_process := Some (sample_handle\<lparr>p_remaining := Some (1 / 2)\<rparr>)\<rparr>)"
    by simp
  from d have "p_remaining sample_handle \<noteq> None"
    by simp
  with blocking
  have g: "fst (call_join Blocking None (snd (call_join Blocking (Some (1 / 2)) running_record))) = Return ()"
    by blast
  from a b c e f g show ?thesis
    by blast
qed

subsection \<open>C8: \<open>output\<close> twice\<close>

text \<open>
  C8. On a record whose child has exited and whose standard output is a pipe, two
  successive calls of \<open>output(join=True)\<close> return the same bytes: the accumulator
  followed by whatever was still unread in the pipe before the first call, so nothing
  is duplicated or lost; with an exhausted pipe that is the accumulator itself. In both
  classes.
\<close>

theorem output_twice_returns_same_bytes:
  assumes "self_process p = Some h"
    and "p_stdout h = Some r"
    and "\<not> alive h"
  shows "fst (call_output m True p) =
           Return (self_output p @ (if m = Blocking \<and> r_closed r then [] else r_pending r)) \<and>
         fst (call_output m True (snd (call_output m True p))) =
           Return (self_output p @ (if m = Blocking \<and> r_closed r then [] else r_pending r)) \<and>
         (r_pending r = [] \<longrightarrow>
            fst (call_output m True p) = Return (self_output p) \<and>
            fst (call_output m True (snd (call_output m True p))) = Return (self_output p))"
  using assms
  by (cases m; cases "p_returncode h"; cases "p_remaining h")
   (simp_all add: output_defs join_defs action_defs property_defs stream_defs wait_defs alive_def
      exits_within_def)

text \<open>C8, witness: the sample record after its child has exited.\<close>

theorem output_twice_returns_same_bytes_witness:
  "self_process (running_record\<lparr>self_process := Some (reap sample_handle)\<rparr>) = Some (reap sample_handle) \<and>
   p_stdout (reap sample_handle) = Some \<lparr>r_closed = False, r_pending = [104, 105]\<rparr> \<and>
   \<not> alive (reap sample_handle) \<and>
   fst (call_output Blocking True (running_record\<lparr>self_process := Some (reap sample_handle)\<rparr>))
     = Return [104, 105] \<and>
   fst (call_output Blocking True
         (snd (call_output Blocking True (running_record\<lparr>self_process := Some (reap sample_handle)\<rparr>))))
     = Return [104, 105] \<and>
   fst (call_output Coroutine True
         (snd (call_output Coroutine True (running_record\<lparr>self_process := Some (reap sample_handle)\<rparr>))))
     = Return [104, 105]"
proof -
  let ?p = "running_record\<lparr>self_process := Some (reap sample_handle)\<rparr>"
  have a: "self_process ?p = Some (reap sample_handle)"
    by simp
  have b: "p_stdout (reap sample_handle) = Some \<lparr>r_closed = False, r_pending = [104, 105]\<rparr>"
    by (simp add: reap_def sample_handle_def)
  have c: "\<not> alive (reap sample_handle)"
    by (simp add: alive_def reap_def)
  have d: "self_output ?p = []"
    by (simp add: running_record_def sample_record_def)
  show ?thesis
    using a b c d output_twice_returns_same_bytes [OF a b c, of Blocking]
      output_twice_returns_same_bytes [OF a b c, of Coroutine]
    by simp
qed

subsection \<open>C9: streams that are not pipes\<close>

text \<open>
  C9, the claim as stated fails: \<open>output()\<close> and \<open>error()\<close> with \<open>join=True\<close> wait for
  the child before they look at the stream. On a spawned record whose standard output
  is not a pipe and whose child never exits they do not fail with
  \<open>ProcessInvalidStreamError\<close>: they never come back.
\<close>

theorem output_of_endless_child_counterexample:
  "self_process (fst (snd (call_run Blocking endless_os (quiet_record, sample_heap)))) \<noteq> None \<and>
   self_stdout quiet_record \<noteq> Some PIPE \<and>
   self_stderr quiet_record = Some STDOUT \<and>
   fst (call_output Blocking True (fst (snd (call_run Blocking endless_os (quiet_record, sample_heap)))))
     = Block \<and>
   fst (call_error Blocking True (fst (snd (call_run Blocking endless_os (quiet_record, sample_heap)))))
     = Block \<and>
   fst (call_output Coroutine True (fst (snd (call_run Coroutine endless_os (quiet_record, sample_heap)))))
     = Block \<and>
   fst (call_error Coroutine True (fst (snd (call_run Coroutine endless_os (quiet_record, sample_heap)))))
     = Block"
  by (simp add: run_defs spawn_request_def is_bytes_def cast_File_def output_defs join_defs
      action_defs property_defs stream_defs wait_defs exits_within_def sample_defs)

text \<open>
  C9, as amended. Take any record made by a constructor and driven by any sequence of
  calls. While it has no handle, the three stream properties and \<open>output\<close>/\<open>error\<close>
  raise \<open>ProcessNotRunError\<close>, whatever the dispositions. Once it has a handle, for every
  stream not disposed as a pipe (standard error merged into standard output included)
  the stream property raises \<open>ProcessInvalidStreamError\<close>, and so does the accumulator
  function as soon as its join is over: at once with \<open>join=False\<close> or when the child
  exits, never if \<open>join=True\<close> and the child runs for ever. It never returns bytes and
  never raises anything else.
\<close>

theorem stream_not_piped_is_invalid:
  assumes "call_init m d shlex_split arguments stdin stdout stderr bs hp0 = (Return p0, hp1)"
    and "the_self (perform_all m cs (constructed hp0 p0 hp1)) = p"
  shows "(self_process p = None \<longrightarrow>
            fst (Process_stdin p) = Raise ProcessNotRunError \<and>
            fst (Process_stdout p) = Raise ProcessNotRunError \<and>
            fst (Process_stderr p) = Raise ProcessNotRunError \<and>
            fst (call_output m j p) = Raise ProcessNotRunError \<and>
            fst (call_error m j p) = Raise ProcessNotRunError) \<and>
         (\<forall>h. self_process p = Some h \<longrightarrow>
            (\<not> is_bytes (self_stdin p) \<and> self_stdin p \<noteq> Some (Handle PIPE) \<longrightarrow>
               fst (Process_stdin p) = Raise ProcessInvalidStreamError) \<and>
            (self_stdout p \<noteq> Some PIPE \<longrightarrow>
               fst (Process_stdout p) = Raise ProcessInvalidStreamError \<and>
               fst (call_output m j p) =
                 (if j \<and> p_returncode h = None \<and> p_remaining h = None then Block
                  else Raise ProcessInvalidStreamError)) \<and>
            (self_stderr p \<noteq> Some PIPE \<longrightarrow>
               fst (Process_stderr p) = Raise ProcessInvalidStreamError \<and>
               fst (call_error m j p) =
                 (if j \<and> p_returncode h = None \<and> p_remaining h = None then Block
                  else Raise ProcessInvalidStreamError)))"
proof -
  from init_settled [OF assms(1)] obtain tokens where "settled tokens (constructed hp0 p0 hp1)"
    by blast
  then have "settled tokens (perform_all m cs (constructed hp0 p0 hp1))"
    by (rule perform_all_settled)
  with assms(2) have w: "wired p"
    by (auto simp: settled_def)
  show ?thesis
    using unstarted_access [of p m j] unpiped_stdin [OF w] unpiped_stdout [OF w, of _ m j]
      unpiped_stderr [OF w, of _ m j]
    by blast
qed

text \<open>
  C9, witness: a record constructed without standard input and output and with standard
  error merged into standard output, before and after its spawn.
\<close>

theorem stream_not_piped_is_invalid_witness:
  "call_init Blocking 0 (\<lambda>s. None) (Sequence [Path ''cat'']) None None (Some STDOUT) (Some 0) []
     = (Return quiet_record, sample_heap) \<and>
   self_process quiet_record = None \<and>
   fst (call_error Blocking True quiet_record) = Raise ProcessNotRunError \<and>
   fst (Process_stdout quiet_record) = Raise ProcessNotRunError \<and>
   self_process (quiet_record\<lparr>self_process := Some quiet_handle\<rparr>) = Some quiet_handle \<and>
   self_stdin quiet_record = None \<and>
   self_stdout quiet_record = None \<and>
   self_stderr quiet_record = Some STDOUT \<and>
   fst (Process_stdin (quiet_record\<lparr>self_process := Some quiet_handle\<rparr>))
     = Raise ProcessInvalidStreamError \<and>
   fst (Process_stdout (quiet_record\<lparr>self_process := Some quiet_handle\<rparr>))
     = Raise ProcessInvalidStreamError \<and>
   fst (call_output Blocking True (quiet_record\<lparr>self_process := Some quiet_handle\<rparr>))
     = Raise ProcessInvalidStreamError \<and>
   fst (Process_stderr (quiet_record\<lparr>self_process := Some quiet_handle\<rparr>))
     = Raise ProcessInvalidStreamError \<and>
   fst (call_error Blocking True (quiet_record\<lparr>self_process := Some quiet_handle\<rparr>))
     = Raise ProcessInvalidStreamError \<and>
   fst (call_error Coroutine False (quiet_record\<lparr>self_process := Some quiet_handle\<rparr>))
     = Raise ProcessInvalidStreamError"
proof -
  let ?q = "quiet_record\<lparr>self_process := Some quiet_handle\<rparr>"
  have a: "the_self (perform_all m [] (constructed [] quiet_record sample_heap)) = quiet_record" for m
    by (simp add: constructed_def)
  have b: "the_self (perform_all m [(sample_os, Run)] (constructed [] quiet_record sample_heap)) = ?q" for m
    by (simp only: spawn_quiet world.simps)
  have c: "self_process quiet_record = None" "self_stdin quiet_record = None"
    "self_stdout quiet_record = None" "self_stderr quiet_record = Some STDOUT"
    "self_process ?q = Some quiet_handle" "self_stdin ?q = None"
    "self_stdout ?q = None" "self_stderr ?q = Some STDOUT"
    "p_remaining quiet_handle = Some 1"
    by (simp_all add: quiet_record_def sample_record_def quiet_handle_def sample_handle_def)
  have d: "is_bytes None = False" "Some STDOUT \<noteq> Some PIPE"
    by (simp_all add: is_bytes_def STDOUT_def PIPE_def)
  show ?thesis
    using c d init_quiet [of Blocking]
      stream_not_piped_is_invalid [OF init_quiet a, of Blocking True]
      stream_not_piped_is_invalid [OF init_quiet b, of Blocking True]
      stream_not_piped_is_invalid [OF init_quiet b, of Coroutine False]
    by simp
qed

subsection \<open>C10: the argument vector\<close>

text \<open>
  C10. Take any record made by a constructor and driven by any sequence of calls, among
  them calls of the property \<open>arguments\<close> and arbitrary overwriting of the lists the
  caller holds. Then the property \<open>arguments\<close> returns a new list object, different
  from the record's own and from every list the caller holds, whose contents are the
  token list resolved at construction (a string split by shell rules, a path converted
  to a string); the record's own list still has these contents, and they are what the
  creation primitive received if the record was spawned.
\<close>

theorem arguments_fixed_at_construction:
  assumes "call_init m d shlex_split arguments stdin stdout stderr bs hp0 = (Return p0, hp1)"
    and "perform_all m cs (constructed hp0 p0 hp1) = w"
    and "AbstractProcess_arguments (the_self w) (the_heap w) = (a, hp)"
  shows "\<exists>tokens. resolved shlex_split arguments = Some tokens \<and>
           hp ! a = tokens \<and>
           a \<notin> set (held w) \<and> a \<noteq> self_arguments (the_self w) \<and> length (the_heap w) \<le> a \<and>
           hp ! self_arguments (the_self w) = tokens \<and>
           (\<forall>h. self_process (the_self w) = Some h \<longrightarrow> rq_args (p_request h) = tokens)"
proof -
  from init_settled [OF assms(1)] obtain tokens
    where r: "resolved shlex_split arguments = Some tokens"
      and "settled tokens (constructed hp0 p0 hp1)"
    by blast
  then have "settled tokens (perform_all m cs (constructed hp0 p0 hp1))"
    by (simp add: perform_all_settled)
  with assms(2) have s: "settled tokens w"
    by simp
  from s assms(3) have "a = length (the_heap w)"
    and "hp = the_heap w @ [tokens]"
    by (auto simp: settled_def AbstractProcess_arguments_def)
  with s r show ?thesis
    by (auto simp: settled_def nth_append)
qed

text \<open>
  C10, witness: the caller takes the list, overwrites it with another command, spawns,
  and empties it; the record and the child still have \<open>cat\<close>.
\<close>

theorem arguments_fixed_at_construction_witness:
  "call_init Blocking 0 (\<lambda>s. None) (Sequence [Path ''cat'']) None None (Some STDOUT) (Some 0) []
     = (Return quiet_record, sample_heap) \<and>
   resolved (\<lambda>s. None) (Sequence [Path ''cat'']) = Some [''cat''] \<and>
   the_heap (perform_all Blocking meddling (constructed [] quiet_record sample_heap)) ! 1 = [] \<and>
   AbstractProcess_arguments
     (the_self (perform_all Blocking meddling (constructed [] quiet_record sample_heap)))
     (the_heap (perform_all Blocking meddling (constructed [] quiet_record sample_heap)))
     = (3, [[''cat''], [], [''cat''], [''cat'']]) \<and>
   [[''cat''], [], [''cat''], [''cat'']] ! 3 = [''cat''] \<and>
   map_option (\<lambda>h. rq_args (p_request h))
     (self_process (the_self (perform_all Blocking meddling (constructed [] quiet_record sample_heap))))
     = Some [''cat'']"
proof -
  let ?w = "perform_all Blocking meddling (constructed [] quiet_record sample_heap)"
  have a: "AbstractProcess_arguments (the_self ?w) (the_heap ?w) = (3, [[''cat''], [], [''cat''], [''cat'']])"
    unfolding meddling_quiet
    by (simp add: AbstractProcess_arguments_def quiet_record_def sample_record_def)
  have b: "resolved (\<lambda>s. None) (Sequence [Path ''cat'']) = Some [''cat'']"
    by (simp add: resolved_def)
  have c: "the_heap ?w ! 1 = []"
    by (simp add: meddling_quiet)
  have d: "self_process (the_self ?w) = Some quiet_handle"
    by (simp add: meddling_quiet)
  show ?thesis
    using a b c d init_quiet [of Blocking]
      arguments_fixed_at_construction [OF init_quiet refl a]
    by auto
qed

end
